theory Spec2Isabelle
  imports Complex_Main "HOL-Library.State_Monad"
begin

section \<open>The object store\<close>

text \<open>
  The program of \<^verbatim>\<open>v1_builder.py\<close> works on two kinds of Python objects: signals
  (\<^verbatim>\<open>NeuralSignal\<close>) and components (\<^verbatim>\<open>NervousSystemComponent\<close> and its subclasses).
  Both are mutable and are shared by reference (a child holds a reference to its parent,
  a parent holds references to its children, \<^verbatim>\<open>CorticalArea.process_signal\<close> rewrites
  the strength of a signal object in place), so both live in an explicit store. An object
  reference is the index of the object in the store; allocation appends to the store, so a
  fresh object never aliases an older one.

  In the store a Python \<^verbatim>\<open>float\<close> is a \<^typ>\<open>real\<close>: \<^verbatim>\<open>*\<close>, \<^verbatim>\<open>+\<close> and \<^verbatim>\<open>min\<close> are the exact
  operations and the literals \<^verbatim>\<open>0.8\<close>, \<^verbatim>\<open>0.9\<close>, \<^verbatim>\<open>0.1\<close>, \<^verbatim>\<open>1.2\<close> are the exact decimal
  fractions. That is the program with the rounding of every operation left out, so what
  the store says about a number is stated in the order in which the program computes
  it, one operation at a time. The interpreter computes in IEEE 754 binary64, where two
  expressions that agree over the reals can differ; the arithmetic of the methods in
  binary64, rounding included, is modelled in its own section below.
\<close>

type_synonym addr = nat

text \<open>The \<^verbatim>\<open>data\<close> field of a signal has type \<^verbatim>\<open>Any\<close>: \<^verbatim>\<open>None\<close>, a string, or some
  other object the program never looks into.\<close>

datatype payload = PyNone | PyStr string | PyObj nat

text \<open>The two exceptions the modelled code can run into: an index out of range, and
  the interpreter's bound on the depth of recursion.\<close>

datatype error = IndexError | RecursionError

record NeuralSignal =
  signal_type :: string
  strength :: real
  data :: payload

text \<open>
  The class of a component decides which \<^verbatim>\<open>process_signal\<close> runs and which further
  attributes the object has: \<^verbatim>\<open>BrainRegion\<close> adds \<^verbatim>\<open>function\<close> and \<^verbatim>\<open>activity_level\<close>,
  \<^verbatim>\<open>CorticalArea\<close> adds \<^verbatim>\<open>area_type\<close> and \<^verbatim>\<open>layers\<close> to those.
\<close>

datatype variant =
    BasicNervousSystemComponent
  | BrainRegion (function': string) (activity_level: real)
  | CorticalArea (function': string) (activity_level: real) (area_type: string) (layers: int)

record component =
  name :: string
  parent :: "addr option"
  children :: "addr list"
  connections :: "addr list"
  active :: bool
  variant :: variant

record heap =
  comps :: "component list"
  sigs :: "NeuralSignal list"

definition empty_heap :: heap where
  "empty_heap = \<lparr>comps = [], sigs = []\<rparr>"

text \<open>A store is closed when every reference held by a component points into the store.
  Python has no dangling references, so every store the program can build is closed.\<close>

definition closed_heap :: "heap \<Rightarrow> bool" where
  "closed_heap h \<longleftrightarrow>
     (\<forall>c \<in> set (comps h).
        (case parent c of None \<Rightarrow> True | Some p \<Rightarrow> p < length (comps h)) \<and>
        (\<forall>a \<in> set (children c). a < length (comps h)) \<and>
        (\<forall>a \<in> set (connections c). a < length (comps h)))"

section \<open>Constructors\<close>

text \<open>\<^verbatim>\<open>NeuralSignal.__init__\<close>: a new signal object; the result is its reference.\<close>

definition new_NeuralSignal :: "string \<Rightarrow> real \<Rightarrow> payload \<Rightarrow> heap \<Rightarrow> addr \<times> heap" where
  "new_NeuralSignal t s d h =
     (length (sigs h), h\<lparr>sigs := sigs h @ [\<lparr>signal_type = t, strength = s, data = d\<rparr>]\<rparr>)"

text \<open>\<^verbatim>\<open>NervousSystemComponent.__init__\<close>, shared by the three classes: no children, no
  connections, active, and the parent as given (it is not told about the new object).\<close>

definition new_component :: "string \<Rightarrow> addr option \<Rightarrow> variant \<Rightarrow> heap \<Rightarrow> addr \<times> heap" where
  "new_component nm p v h =
     (length (comps h),
      h\<lparr>comps := comps h @
         [\<lparr>name = nm, parent = p, children = [], connections = [], active = True,
           variant = v\<rparr>]\<rparr>)"

definition new_BasicNervousSystemComponent :: "string \<Rightarrow> addr option \<Rightarrow> heap \<Rightarrow> addr \<times> heap" where
  "new_BasicNervousSystemComponent nm p = new_component nm p BasicNervousSystemComponent"

definition new_BrainRegion :: "string \<Rightarrow> string \<Rightarrow> addr option \<Rightarrow> heap \<Rightarrow> addr \<times> heap" where
  "new_BrainRegion nm f p = new_component nm p (BrainRegion f 0)"

definition new_CorticalArea ::
  "string \<Rightarrow> string \<Rightarrow> string \<Rightarrow> addr option \<Rightarrow> heap \<Rightarrow> addr \<times> heap" where
  "new_CorticalArea nm f t p = new_component nm p (CorticalArea f 0 t 6)"

section \<open>Tree and connection operations\<close>

text \<open>\<^verbatim>\<open>add_child\<close>: first \<^verbatim>\<open>child.parent = self\<close>, then \<^verbatim>\<open>self.children.append(child)\<close>.
  The second step reads the store the first step left, so that \<^verbatim>\<open>a.add_child(a)\<close> is
  covered. Nothing is removed from the children of a former parent.\<close>

definition add_child :: "addr \<Rightarrow> addr \<Rightarrow> heap \<Rightarrow> heap" where
  "add_child self child h =
     (let h1 = h\<lparr>comps := (comps h)[child := (comps h ! child)\<lparr>parent := Some self\<rparr>]\<rparr>
      in h1\<lparr>comps := (comps h1)[self :=
            (comps h1 ! self)\<lparr>children := children (comps h1 ! self) @ [child]\<rparr>]\<rparr>)"

definition add_connection :: "addr \<Rightarrow> addr \<Rightarrow> heap \<Rightarrow> heap" where
  "add_connection self target h =
     h\<lparr>comps := (comps h)[self :=
        (comps h ! self)\<lparr>connections := connections (comps h ! self) @ [target]\<rparr>]\<rparr>"

text \<open>\<^verbatim>\<open>get_path\<close> only reads the store. It follows the parent references and does not
  return when they form a cycle; not returning is the value \<open>None\<close>.\<close>

partial_function (option) get_path :: "heap \<Rightarrow> addr \<Rightarrow> string option" where
  "get_path h self =
     (case parent (comps h ! self) of
        Some p \<Rightarrow>
          Option.bind (get_path h p) (\<lambda>s. Some (s @ ''/'' @ name (comps h ! self)))
      | None \<Rightarrow> Some (name (comps h ! self)))"

text \<open>The parent relation of a store, as pairs (parent, child).\<close>

definition parent_rel :: "heap \<Rightarrow> (addr \<times> addr) set" where
  "parent_rel h = {(p, a). a < length (comps h) \<and> parent (comps h ! a) = Some p}"

section \<open>Signal processing\<close>

text \<open>
  \<^verbatim>\<open>BasicNervousSystemComponent.process_signal\<close>. The three \<^verbatim>\<open>hasattr\<close> tests hold for
  every \<^verbatim>\<open>NeuralSignal\<close> (its constructor sets the three attributes), and
  \<^verbatim>\<open>type(signal)\<close> is \<^verbatim>\<open>NeuralSignal\<close>, so the method builds one new signal and returns
  the list holding it.
\<close>

definition Basic_process_signal :: "addr \<Rightarrow> addr \<Rightarrow> heap \<Rightarrow> addr list \<times> heap" where
  "Basic_process_signal self sig h =
     (let s = sigs h ! sig in
      case new_NeuralSignal (signal_type s) (strength s * 0.9) (data s) h of
        (output_signal, h1) \<Rightarrow> ([output_signal], h1))"

text \<open>The assignment \<^verbatim>\<open>self.activity_level = x\<close>. The method that makes it is only
  reached on the two classes that have the attribute.\<close>

fun set_activity_level :: "real \<Rightarrow> variant \<Rightarrow> variant" where
  "set_activity_level x BasicNervousSystemComponent = BasicNervousSystemComponent"
| "set_activity_level x (BrainRegion f a) = BrainRegion f x"
| "set_activity_level x (CorticalArea f a t l) = CorticalArea f x t l"

text \<open>\<^verbatim>\<open>BrainRegion.process_signal\<close>: the activity level is raised first, then the output
  signal is built from the region's function and name.\<close>

definition BrainRegion_process_signal :: "addr \<Rightarrow> addr \<Rightarrow> heap \<Rightarrow> addr list \<times> heap" where
  "BrainRegion_process_signal self sig h =
     (let c = comps h ! self;
          s = sigs h ! sig;
          h1 = h\<lparr>comps := (comps h)[self :=
                 c\<lparr>variant := set_activity_level
                      (min 1.0 (activity_level (variant c) + strength s * 0.1)) (variant c)\<rparr>]\<rparr>
      in case new_NeuralSignal (function' (variant c) @ ''_processed'') (strength s * 0.8)
                (PyStr (''Processed by '' @ name c)) h1 of
           (output_signal, h2) \<Rightarrow> ([output_signal], h2))"

text \<open>\<^verbatim>\<open>processed_signals[0].strength *= k\<close>: the signal object that the first entry of
  the list refers to is updated in the store; an empty list raises \<^verbatim>\<open>IndexError\<close>.\<close>

definition scale_first :: "real \<Rightarrow> addr list \<Rightarrow> heap \<Rightarrow> error + heap" where
  "scale_first k processed_signals h =
     (case processed_signals of
        [] \<Rightarrow> Inl IndexError
      | p # _ \<Rightarrow>
          Inr (h\<lparr>sigs := (sigs h)[p := (sigs h ! p)\<lparr>strength := strength (sigs h ! p) * k\<rparr>]\<rparr>))"

text \<open>\<^verbatim>\<open>CorticalArea.process_signal\<close>: the super call, then the adjustment by area type.\<close>

definition CorticalArea_process_signal ::
  "addr \<Rightarrow> addr \<Rightarrow> heap \<Rightarrow> error + (addr list \<times> heap)" where
  "CorticalArea_process_signal self sig h =
     (case BrainRegion_process_signal self sig h of
        (processed_signals, h1) \<Rightarrow>
          if area_type (variant (comps h1 ! self)) = ''motor'' \<and>
             signal_type (sigs h1 ! sig) = ''motor_command''
          then (case scale_first 1.2 processed_signals h1 of
                  Inl e \<Rightarrow> Inl e
                | Inr h2 \<Rightarrow> Inr (processed_signals, h2))
          else if area_type (variant (comps h1 ! self)) = ''sensory''
          then (case scale_first 0.9 processed_signals h1 of
                  Inl e \<Rightarrow> Inl e
                | Inr h2 \<Rightarrow> Inr (processed_signals, h2))
          else Inr (processed_signals, h1))"

text \<open>The method call \<^verbatim>\<open>node.process_signal(signal)\<close>: the class of the receiver selects
  the method.\<close>

definition process_signal :: "addr \<Rightarrow> addr \<Rightarrow> heap \<Rightarrow> error + (addr list \<times> heap)" where
  "process_signal self sig h =
     (case variant (comps h ! self) of
        BasicNervousSystemComponent \<Rightarrow> Inr (Basic_process_signal self sig h)
      | BrainRegion _ _ \<Rightarrow> Inr (BrainRegion_process_signal self sig h)
      | CorticalArea _ _ _ _ \<Rightarrow> CorticalArea_process_signal self sig h)"

text \<open>
  \<^verbatim>\<open>send_signal\<close>: the loop over the connections, and inside it the loop over the output
  signals with the recursive call. The first argument bounds the depth of the recursion,
  as the interpreter does; running into the bound is \<^verbatim>\<open>RecursionError\<close>.
\<close>

fun send_signal :: "nat \<Rightarrow> addr \<Rightarrow> addr \<Rightarrow> heap \<Rightarrow> error + heap"
  and send_connections :: "nat \<Rightarrow> addr list \<Rightarrow> addr \<Rightarrow> heap \<Rightarrow> error + heap"
  and send_outputs :: "nat \<Rightarrow> addr \<Rightarrow> addr list \<Rightarrow> heap \<Rightarrow> error + heap"
where
  "send_signal 0 self sig h = Inl RecursionError"
| "send_signal (Suc k) self sig h = send_connections k (connections (comps h ! self)) sig h"
| "send_connections k [] sig h = Inr h"
| "send_connections k (connection # rest) sig h =
     (if active (comps h ! connection)
      then (case process_signal connection sig h of
              Inl e \<Rightarrow> Inl e
            | Inr (output_signals, h1) \<Rightarrow>
                (case send_outputs k connection output_signals h1 of
                   Inl e \<Rightarrow> Inl e
                 | Inr h2 \<Rightarrow> send_connections k rest sig h2))
      else send_connections k rest sig h)"
| "send_outputs k connection [] h = Inr h"
| "send_outputs k connection (output_signal # rest) h =
     (case send_signal k connection output_signal h of
        Inl e \<Rightarrow> Inl e
      | Inr h1 \<Rightarrow> send_outputs k connection rest h1)"

text \<open>The connection relation of a store, as pairs (target, source).\<close>

definition connection_rel :: "heap \<Rightarrow> (addr \<times> addr) set" where
  "connection_rel h =
     {(t, a). a < length (comps h) \<and> t \<in> set (connections (comps h ! a))}"

section \<open>Lookup by name\<close>

text \<open>\<^verbatim>\<open>find_component\<close> of the two demo scripts: the node itself, then its children in
  order, the first hit wins. A component object is always true in \<^verbatim>\<open>if result\<close>.\<close>

fun find_component :: "nat \<Rightarrow> heap \<Rightarrow> addr \<Rightarrow> string \<Rightarrow> error + addr option"
  and find_in_children :: "nat \<Rightarrow> heap \<Rightarrow> addr list \<Rightarrow> string \<Rightarrow> error + addr option"
where
  "find_component 0 h start nm = Inl RecursionError"
| "find_component (Suc k) h start nm =
     (if name (comps h ! start) = nm then Inr (Some start)
      else find_in_children k h (children (comps h ! start)) nm)"
| "find_in_children k h [] nm = Inr None"
| "find_in_children k h (child # rest) nm =
     (case find_component k h child nm of
        Inl e \<Rightarrow> Inl e
      | Inr (Some result) \<Rightarrow> Inr (Some result)
      | Inr None \<Rightarrow> find_in_children k h rest nm)"

section \<open>The builder\<close>

text \<open>
  \<^verbatim>\<open>NervousSystemBuilder\<close> threads the store through a fixed sequence of constructor
  and \<^verbatim>\<open>add_child\<close> calls; the model keeps that sequence, statement by statement, in
  the state monad. The builder's own field \<^verbatim>\<open>root\<close> only keeps the result and is the
  returned reference here.
\<close>

definition basic :: "string \<Rightarrow> (heap, addr) state" where
  "basic nm = State (new_BasicNervousSystemComponent nm None)"

definition region :: "string \<Rightarrow> string \<Rightarrow> addr option \<Rightarrow> (heap, addr) state" where
  "region nm f p = State (new_BrainRegion nm f p)"

definition cortical :: "string \<Rightarrow> string \<Rightarrow> string \<Rightarrow> addr option \<Rightarrow> (heap, addr) state" where
  "cortical nm f t p = State (new_CorticalArea nm f t p)"

definition child :: "addr \<Rightarrow> addr \<Rightarrow> (heap, unit) state" where
  "child self c = State (\<lambda>h. ((), add_child self c h))"

text \<open>The loop \<^verbatim>\<open>for n in names: r = BrainRegion(n, f); owner.add_child(r)\<close> of the
  spinal cord and of the cranial nerves.\<close>

fun add_regions :: "addr \<Rightarrow> string \<Rightarrow> string list \<Rightarrow> (heap, unit) state" where
  "add_regions owner f [] = State_Monad.return ()"
| "add_regions owner f (n # ns) = do {
     r \<leftarrow> region n f None;
     child owner r;
     add_regions owner f ns
   }"

definition build_cerebrum :: "(heap, addr) state" where
  "build_cerebrum = do {
     cerebrum \<leftarrow> basic ''Cerebrum'';
     cortex \<leftarrow> basic ''CerebralCortex'';
     frontal \<leftarrow> basic ''FrontalLobe'';
     motor_cortex \<leftarrow> cortical ''PrimaryMotorCortex'' ''motor_control'' ''motor'' (Some frontal);
     prefrontal \<leftarrow> cortical ''PrefrontalCortex'' ''executive_function'' ''association'' (Some frontal);
     brocas \<leftarrow> cortical ''BrocasArea'' ''speech_production'' ''association'' (Some frontal);
     child frontal motor_cortex;
     child frontal prefrontal;
     child frontal brocas;
     child cortex frontal;
     parietal \<leftarrow> basic ''ParietalLobe'';
     somatosensory \<leftarrow> cortical ''PrimarySomatosensoryCortex'' ''touch_processing'' ''sensory'' (Some parietal);
     posterior_parietal \<leftarrow> cortical ''PosteriorParietalCortex'' ''spatial_processing'' ''association'' (Some parietal);
     child parietal somatosensory;
     child parietal posterior_parietal;
     child cortex parietal;
     temporal \<leftarrow> basic ''TemporalLobe'';
     auditory \<leftarrow> cortical ''PrimaryAuditoryCortex'' ''hearing'' ''sensory'' (Some temporal);
     wernickes \<leftarrow> cortical ''WernickesArea'' ''language_comprehension'' ''association'' (Some temporal);
     hippocampus \<leftarrow> region ''Hippocampus'' ''memory_formation'' (Some temporal);
     child temporal auditory;
     child temporal wernickes;
     child temporal hippocampus;
     child cortex temporal;
     occipital \<leftarrow> basic ''OccipitalLobe'';
     visual \<leftarrow> cortical ''PrimaryVisualCortex'' ''vision'' ''sensory'' (Some occipital);
     visual_assoc \<leftarrow> cortical ''VisualAssociationAreas'' ''visual_processing'' ''association'' (Some occipital);
     child occipital visual;
     child occipital visual_assoc;
     child cortex occipital;
     child cerebrum cortex;
     white_matter \<leftarrow> basic ''WhiteMatter'';
     corpus_callosum \<leftarrow> region ''CorpusCallosum'' ''interhemispheric_communication'' (Some white_matter);
     internal_capsule \<leftarrow> region ''InternalCapsule'' ''projection_fibers'' (Some white_matter);
     child white_matter corpus_callosum;
     child white_matter internal_capsule;
     child cerebrum white_matter;
     State_Monad.return cerebrum
   }"

definition build_brainstem :: "(heap, addr) state" where
  "build_brainstem = do {
     brainstem \<leftarrow> basic ''Brainstem'';
     medulla \<leftarrow> region ''Medulla'' ''vital_functions'' None;
     respiratory \<leftarrow> region ''RespiratoryCenter'' ''breathing_control'' (Some medulla);
     cardiac \<leftarrow> region ''CardiacCenter'' ''heart_rate_control'' (Some medulla);
     child medulla respiratory;
     child medulla cardiac;
     child brainstem medulla;
     pons \<leftarrow> region ''Pons'' ''relay_sleep'' None;
     pontine_nuclei \<leftarrow> region ''PontineNuclei'' ''motor_relay'' (Some pons);
     sleep_centers \<leftarrow> region ''SleepWakeCenters'' ''sleep_regulation'' (Some pons);
     child pons pontine_nuclei;
     child pons sleep_centers;
     child brainstem pons;
     midbrain \<leftarrow> region ''Midbrain'' ''reflexes_reward'' None;
     superior_coll \<leftarrow> region ''SuperiorColliculus'' ''visual_reflexes'' (Some midbrain);
     substantia_nigra \<leftarrow> region ''SubstantiaNigra'' ''dopamine_production'' (Some midbrain);
     child midbrain superior_coll;
     child midbrain substantia_nigra;
     child brainstem midbrain;
     State_Monad.return brainstem
   }"

definition build_diencephalon :: "(heap, addr) state" where
  "build_diencephalon = do {
     diencephalon \<leftarrow> basic ''Diencephalon'';
     thalamus \<leftarrow> region ''Thalamus'' ''sensory_relay'' None;
     sensory_relay \<leftarrow> region ''SensoryRelayNuclei'' ''sensory_processing'' (Some thalamus);
     motor_relay \<leftarrow> region ''MotorRelayNuclei'' ''motor_processing'' (Some thalamus);
     child thalamus sensory_relay;
     child thalamus motor_relay;
     child diencephalon thalamus;
     hypothalamus \<leftarrow> region ''Hypothalamus'' ''homeostasis'' None;
     paraventricular \<leftarrow> region ''ParaventricularNucleus'' ''hormone_regulation'' (Some hypothalamus);
     suprachiasmatic \<leftarrow> region ''SuprachiasmaticNucleus'' ''circadian_rhythm'' (Some hypothalamus);
     child hypothalamus paraventricular;
     child hypothalamus suprachiasmatic;
     child diencephalon hypothalamus;
     State_Monad.return diencephalon
   }"

definition build_limbic_system :: "(heap, addr) state" where
  "build_limbic_system = do {
     limbic \<leftarrow> basic ''LimbicSystem'';
     hippocampus \<leftarrow> region ''Hippocampus'' ''memory_formation'' None;
     dentate_gyrus \<leftarrow> region ''DentateGyrus'' ''pattern_separation'' (Some hippocampus);
     ca1 \<leftarrow> region ''CA1_Field'' ''memory_output'' (Some hippocampus);
     ca3 \<leftarrow> region ''CA3_Field'' ''pattern_completion'' (Some hippocampus);
     child hippocampus dentate_gyrus;
     child hippocampus ca1;
     child hippocampus ca3;
     child limbic hippocampus;
     amygdala \<leftarrow> region ''Amygdala'' ''fear_emotion'' None;
     central_nucleus \<leftarrow> region ''CentralNucleus'' ''fear_response'' (Some amygdala);
     basolateral \<leftarrow> region ''BasolateralComplex'' ''fear_learning'' (Some amygdala);
     child amygdala central_nucleus;
     child amygdala basolateral;
     child limbic amygdala;
     State_Monad.return limbic
   }"

definition build_brain :: "(heap, addr) state" where
  "build_brain = do {
     brain \<leftarrow> basic ''Brain'';
     cerebrum \<leftarrow> build_cerebrum;
     child brain cerebrum;
     cerebellum \<leftarrow> region ''Cerebellum'' ''motor_coordination'' None;
     purkinje_layer \<leftarrow> region ''PurkinjeLayer'' ''integration'' (Some cerebellum);
     granule_layer \<leftarrow> region ''GranuleLayer'' ''input_processing'' (Some cerebellum);
     molecular_layer \<leftarrow> region ''MolecularLayer'' ''output_processing'' (Some cerebellum);
     child cerebellum purkinje_layer;
     child cerebellum granule_layer;
     child cerebellum molecular_layer;
     child brain cerebellum;
     brainstem \<leftarrow> build_brainstem;
     child brain brainstem;
     diencephalon \<leftarrow> build_diencephalon;
     child brain diencephalon;
     limbic \<leftarrow> build_limbic_system;
     child brain limbic;
     State_Monad.return brain
   }"

definition build_spinal_cord :: "(heap, addr) state" where
  "build_spinal_cord = do {
     spinal_cord \<leftarrow> basic ''SpinalCord'';
     add_regions spinal_cord ''spinal_processing''
       [''CervicalRegion'', ''ThoracicRegion'', ''LumbarRegion'', ''SacralRegion''];
     State_Monad.return spinal_cord
   }"

definition build_somatic_system :: "(heap, addr) state" where
  "build_somatic_system = do {
     somatic \<leftarrow> basic ''SomaticNervousSystem'';
     cranial \<leftarrow> basic ''CranialNerves'';
     add_regions cranial ''peripheral_relay''
       [''Olfactory_I'', ''Optic_II'', ''Oculomotor_III'', ''Trigeminal_V'',
        ''Facial_VII'', ''Vestibulocochlear_VIII'', ''Vagus_X''];
     child somatic cranial;
     State_Monad.return somatic
   }"

definition build_autonomic_system :: "(heap, addr) state" where
  "build_autonomic_system = do {
     autonomic \<leftarrow> basic ''AutonomicNervousSystem'';
     sympathetic \<leftarrow> region ''SympatheticNervousSystem'' ''fight_flight'' None;
     child autonomic sympathetic;
     parasympathetic \<leftarrow> region ''ParasympatheticNervousSystem'' ''rest_digest'' None;
     child autonomic parasympathetic;
     State_Monad.return autonomic
   }"

definition build_complete_system :: "(heap, addr) state" where
  "build_complete_system = do {
     nervous_system \<leftarrow> basic ''NervousSystem'';
     cns \<leftarrow> basic ''CentralNervousSystem'';
     child nervous_system cns;
     brain \<leftarrow> build_brain;
     child cns brain;
     spinal_cord \<leftarrow> build_spinal_cord;
     child cns spinal_cord;
     pns \<leftarrow> basic ''PeripheralNervousSystem'';
     child nervous_system pns;
     somatic \<leftarrow> build_somatic_system;
     autonomic \<leftarrow> build_autonomic_system;
     child pns somatic;
     child pns autonomic;
     State_Monad.return nervous_system
   }"


section \<open>The nodes the builder allocates\<close>

text \<open>
  Each part of the builder appends a fixed block of nodes to the store. The blocks are
  written down here with the references relative to the first free index \<open>n\<close> of the
  store and with the parent \<open>p\<close> of the block's root left open (the root is created
  without a parent and gets one when it is added as a child). That the builder produces
  exactly these blocks is proved below.
\<close>

definition cerebrum_nodes :: "addr \<Rightarrow> addr option \<Rightarrow> component list" where
  "cerebrum_nodes n p =
     [\<lparr>name = ''Cerebrum'', parent = p, children = [n + 1, n + 16],
       connections = [], active = True, variant = BasicNervousSystemComponent\<rparr>,
      \<lparr>name = ''CerebralCortex'', parent = Some n, children = [n + 2, n + 6, n + 9, n + 13],
       connections = [], active = True, variant = BasicNervousSystemComponent\<rparr>,
      \<lparr>name = ''FrontalLobe'', parent = Some (n + 1), children = [n + 3, n + 4, n + 5],
       connections = [], active = True, variant = BasicNervousSystemComponent\<rparr>,
      \<lparr>name = ''PrimaryMotorCortex'', parent = Some (n + 2), children = [],
       connections = [], active = True, variant = CorticalArea ''motor_control'' 0 ''motor'' 6\<rparr>,
      \<lparr>name = ''PrefrontalCortex'', parent = Some (n + 2), children = [],
       connections = [], active = True, variant = CorticalArea ''executive_function'' 0 ''association'' 6\<rparr>,
      \<lparr>name = ''BrocasArea'', parent = Some (n + 2), children = [],
       connections = [], active = True, variant = CorticalArea ''speech_production'' 0 ''association'' 6\<rparr>,
      \<lparr>name = ''ParietalLobe'', parent = Some (n + 1), children = [n + 7, n + 8],
       connections = [], active = True, variant = BasicNervousSystemComponent\<rparr>,
      \<lparr>name = ''PrimarySomatosensoryCortex'', parent = Some (n + 6), children = [],
       connections = [], active = True, variant = CorticalArea ''touch_processing'' 0 ''sensory'' 6\<rparr>,
      \<lparr>name = ''PosteriorParietalCortex'', parent = Some (n + 6), children = [],
       connections = [], active = True, variant = CorticalArea ''spatial_processing'' 0 ''association'' 6\<rparr>,
      \<lparr>name = ''TemporalLobe'', parent = Some (n + 1), children = [n + 10, n + 11, n + 12],
       connections = [], active = True, variant = BasicNervousSystemComponent\<rparr>,
      \<lparr>name = ''PrimaryAuditoryCortex'', parent = Some (n + 9), children = [],
       connections = [], active = True, variant = CorticalArea ''hearing'' 0 ''sensory'' 6\<rparr>,
      \<lparr>name = ''WernickesArea'', parent = Some (n + 9), children = [],
       connections = [], active = True, variant = CorticalArea ''language_comprehension'' 0 ''association'' 6\<rparr>,
      \<lparr>name = ''Hippocampus'', parent = Some (n + 9), children = [],
       connections = [], active = True, variant = BrainRegion ''memory_formation'' 0\<rparr>,
      \<lparr>name = ''OccipitalLobe'', parent = Some (n + 1), children = [n + 14, n + 15],
       connections = [], active = True, variant = BasicNervousSystemComponent\<rparr>,
      \<lparr>name = ''PrimaryVisualCortex'', parent = Some (n + 13), children = [],
       connections = [], active = True, variant = CorticalArea ''vision'' 0 ''sensory'' 6\<rparr>,
      \<lparr>name = ''VisualAssociationAreas'', parent = Some (n + 13), children = [],
       connections = [], active = True, variant = CorticalArea ''visual_processing'' 0 ''association'' 6\<rparr>,
      \<lparr>name = ''WhiteMatter'', parent = Some n, children = [n + 17, n + 18],
       connections = [], active = True, variant = BasicNervousSystemComponent\<rparr>,
      \<lparr>name = ''CorpusCallosum'', parent = Some (n + 16), children = [],
       connections = [], active = True, variant = BrainRegion ''interhemispheric_communication'' 0\<rparr>,
      \<lparr>name = ''InternalCapsule'', parent = Some (n + 16), children = [],
       connections = [], active = True, variant = BrainRegion ''projection_fibers'' 0\<rparr>]"

definition brainstem_nodes :: "addr \<Rightarrow> addr option \<Rightarrow> component list" where
  "brainstem_nodes n p =
     [\<lparr>name = ''Brainstem'', parent = p, children = [n + 1, n + 4, n + 7],
       connections = [], active = True, variant = BasicNervousSystemComponent\<rparr>,
      \<lparr>name = ''Medulla'', parent = Some n, children = [n + 2, n + 3],
       connections = [], active = True, variant = BrainRegion ''vital_functions'' 0\<rparr>,
      \<lparr>name = ''RespiratoryCenter'', parent = Some (n + 1), children = [],
       connections = [], active = True, variant = BrainRegion ''breathing_control'' 0\<rparr>,
      \<lparr>name = ''CardiacCenter'', parent = Some (n + 1), children = [],
       connections = [], active = True, variant = BrainRegion ''heart_rate_control'' 0\<rparr>,
      \<lparr>name = ''Pons'', parent = Some n, children = [n + 5, n + 6],
       connections = [], active = True, variant = BrainRegion ''relay_sleep'' 0\<rparr>,
      \<lparr>name = ''PontineNuclei'', parent = Some (n + 4), children = [],
       connections = [], active = True, variant = BrainRegion ''motor_relay'' 0\<rparr>,
      \<lparr>name = ''SleepWakeCenters'', parent = Some (n + 4), children = [],
       connections = [], active = True, variant = BrainRegion ''sleep_regulation'' 0\<rparr>,
      \<lparr>name = ''Midbrain'', parent = Some n, children = [n + 8, n + 9],
       connections = [], active = True, variant = BrainRegion ''reflexes_reward'' 0\<rparr>,
      \<lparr>name = ''SuperiorColliculus'', parent = Some (n + 7), children = [],
       connections = [], active = True, variant = BrainRegion ''visual_reflexes'' 0\<rparr>,
      \<lparr>name = ''SubstantiaNigra'', parent = Some (n + 7), children = [],
       connections = [], active = True, variant = BrainRegion ''dopamine_production'' 0\<rparr>]"

definition diencephalon_nodes :: "addr \<Rightarrow> addr option \<Rightarrow> component list" where
  "diencephalon_nodes n p =
     [\<lparr>name = ''Diencephalon'', parent = p, children = [n + 1, n + 4],
       connections = [], active = True, variant = BasicNervousSystemComponent\<rparr>,
      \<lparr>name = ''Thalamus'', parent = Some n, children = [n + 2, n + 3],
       connections = [], active = True, variant = BrainRegion ''sensory_relay'' 0\<rparr>,
      \<lparr>name = ''SensoryRelayNuclei'', parent = Some (n + 1), children = [],
       connections = [], active = True, variant = BrainRegion ''sensory_processing'' 0\<rparr>,
      \<lparr>name = ''MotorRelayNuclei'', parent = Some (n + 1), children = [],
       connections = [], active = True, variant = BrainRegion ''motor_processing'' 0\<rparr>,
      \<lparr>name = ''Hypothalamus'', parent = Some n, children = [n + 5, n + 6],
       connections = [], active = True, variant = BrainRegion ''homeostasis'' 0\<rparr>,
      \<lparr>name = ''ParaventricularNucleus'', parent = Some (n + 4), children = [],
       connections = [], active = True, variant = BrainRegion ''hormone_regulation'' 0\<rparr>,
      \<lparr>name = ''SuprachiasmaticNucleus'', parent = Some (n + 4), children = [],
       connections = [], active = True, variant = BrainRegion ''circadian_rhythm'' 0\<rparr>]"

definition limbic_system_nodes :: "addr \<Rightarrow> addr option \<Rightarrow> component list" where
  "limbic_system_nodes n p =
     [\<lparr>name = ''LimbicSystem'', parent = p, children = [n + 1, n + 5],
       connections = [], active = True, variant = BasicNervousSystemComponent\<rparr>,
      \<lparr>name = ''Hippocampus'', parent = Some n, children = [n + 2, n + 3, n + 4],
       connections = [], active = True, variant = BrainRegion ''memory_formation'' 0\<rparr>,
      \<lparr>name = ''DentateGyrus'', parent = Some (n + 1), children = [],
       connections = [], active = True, variant = BrainRegion ''pattern_separation'' 0\<rparr>,
      \<lparr>name = ''CA1_Field'', parent = Some (n + 1), children = [],
       connections = [], active = True, variant = BrainRegion ''memory_output'' 0\<rparr>,
      \<lparr>name = ''CA3_Field'', parent = Some (n + 1), children = [],
       connections = [], active = True, variant = BrainRegion ''pattern_completion'' 0\<rparr>,
      \<lparr>name = ''Amygdala'', parent = Some n, children = [n + 6, n + 7],
       connections = [], active = True, variant = BrainRegion ''fear_emotion'' 0\<rparr>,
      \<lparr>name = ''CentralNucleus'', parent = Some (n + 5), children = [],
       connections = [], active = True, variant = BrainRegion ''fear_response'' 0\<rparr>,
      \<lparr>name = ''BasolateralComplex'', parent = Some (n + 5), children = [],
       connections = [], active = True, variant = BrainRegion ''fear_learning'' 0\<rparr>]"

definition spinal_cord_nodes :: "addr \<Rightarrow> addr option \<Rightarrow> component list" where
  "spinal_cord_nodes n p =
     [\<lparr>name = ''SpinalCord'', parent = p, children = [n + 1, n + 2, n + 3, n + 4],
       connections = [], active = True, variant = BasicNervousSystemComponent\<rparr>,
      \<lparr>name = ''CervicalRegion'', parent = Some n, children = [],
       connections = [], active = True, variant = BrainRegion ''spinal_processing'' 0\<rparr>,
      \<lparr>name = ''ThoracicRegion'', parent = Some n, children = [],
       connections = [], active = True, variant = BrainRegion ''spinal_processing'' 0\<rparr>,
      \<lparr>name = ''LumbarRegion'', parent = Some n, children = [],
       connections = [], active = True, variant = BrainRegion ''spinal_processing'' 0\<rparr>,
      \<lparr>name = ''SacralRegion'', parent = Some n, children = [],
       connections = [], active = True, variant = BrainRegion ''spinal_processing'' 0\<rparr>]"

definition somatic_system_nodes :: "addr \<Rightarrow> addr option \<Rightarrow> component list" where
  "somatic_system_nodes n p =
     [\<lparr>name = ''SomaticNervousSystem'', parent = p, children = [n + 1],
       connections = [], active = True, variant = BasicNervousSystemComponent\<rparr>,
      \<lparr>name = ''CranialNerves'', parent = Some n, children = [n + 2, n + 3, n + 4, n + 5, n + 6, n + 7, n + 8],
       connections = [], active = True, variant = BasicNervousSystemComponent\<rparr>,
      \<lparr>name = ''Olfactory_I'', parent = Some (n + 1), children = [],
       connections = [], active = True, variant = BrainRegion ''peripheral_relay'' 0\<rparr>,
      \<lparr>name = ''Optic_II'', parent = Some (n + 1), children = [],
       connections = [], active = True, variant = BrainRegion ''peripheral_relay'' 0\<rparr>,
      \<lparr>name = ''Oculomotor_III'', parent = Some (n + 1), children = [],
       connections = [], active = True, variant = BrainRegion ''peripheral_relay'' 0\<rparr>,
      \<lparr>name = ''Trigeminal_V'', parent = Some (n + 1), children = [],
       connections = [], active = True, variant = BrainRegion ''peripheral_relay'' 0\<rparr>,
      \<lparr>name = ''Facial_VII'', parent = Some (n + 1), children = [],
       connections = [], active = True, variant = BrainRegion ''peripheral_relay'' 0\<rparr>,
      \<lparr>name = ''Vestibulocochlear_VIII'', parent = Some (n + 1), children = [],
       connections = [], active = True, variant = BrainRegion ''peripheral_relay'' 0\<rparr>,
      \<lparr>name = ''Vagus_X'', parent = Some (n + 1), children = [],
       connections = [], active = True, variant = BrainRegion ''peripheral_relay'' 0\<rparr>]"

definition autonomic_system_nodes :: "addr \<Rightarrow> addr option \<Rightarrow> component list" where
  "autonomic_system_nodes n p =
     [\<lparr>name = ''AutonomicNervousSystem'', parent = p, children = [n + 1, n + 2],
       connections = [], active = True, variant = BasicNervousSystemComponent\<rparr>,
      \<lparr>name = ''SympatheticNervousSystem'', parent = Some n, children = [],
       connections = [], active = True, variant = BrainRegion ''fight_flight'' 0\<rparr>,
      \<lparr>name = ''ParasympatheticNervousSystem'', parent = Some n, children = [],
       connections = [], active = True, variant = BrainRegion ''rest_digest'' 0\<rparr>]"


definition brain_nodes :: "addr \<Rightarrow> addr option \<Rightarrow> component list" where
  "brain_nodes n p =
     \<lparr>name = ''Brain'', parent = p, children = [n + 1, n + 20, n + 24, n + 34, n + 41],
       connections = [], active = True, variant = BasicNervousSystemComponent\<rparr> #
     cerebrum_nodes (n + 1) (Some n) @
     [\<lparr>name = ''Cerebellum'', parent = Some n, children = [n + 21, n + 22, n + 23],
       connections = [], active = True, variant = BrainRegion ''motor_coordination'' 0\<rparr>,
      \<lparr>name = ''PurkinjeLayer'', parent = Some (n + 20), children = [],
       connections = [], active = True, variant = BrainRegion ''integration'' 0\<rparr>,
      \<lparr>name = ''GranuleLayer'', parent = Some (n + 20), children = [],
       connections = [], active = True, variant = BrainRegion ''input_processing'' 0\<rparr>,
      \<lparr>name = ''MolecularLayer'', parent = Some (n + 20), children = [],
       connections = [], active = True, variant = BrainRegion ''output_processing'' 0\<rparr>] @
     brainstem_nodes (n + 24) (Some n) @
     diencephalon_nodes (n + 34) (Some n) @
     limbic_system_nodes (n + 41) (Some n)"

definition system_nodes :: "component list" where
  "system_nodes =
     [\<lparr>name = ''NervousSystem'', parent = None, children = [1, 56],
       connections = [], active = True, variant = BasicNervousSystemComponent\<rparr>,
      \<lparr>name = ''CentralNervousSystem'', parent = Some 0, children = [2, 51],
       connections = [], active = True, variant = BasicNervousSystemComponent\<rparr>] @
     brain_nodes 2 (Some 1) @
     spinal_cord_nodes 51 (Some 1) @
     [\<lparr>name = ''PeripheralNervousSystem'', parent = Some 0, children = [57, 66],
       connections = [], active = True, variant = BasicNervousSystemComponent\<rparr>] @
     somatic_system_nodes 57 (Some 56) @
     autonomic_system_nodes 66 (Some 56)"

section \<open>Call sequences\<close>

text \<open>A driver that calls \<^verbatim>\<open>process_signal\<close> on one node once for every signal of a list,
  and records the node's activity level after each call. A call that raises ends the
  record.\<close>

fun activity_trace :: "addr \<Rightarrow> addr list \<Rightarrow> heap \<Rightarrow> real list" where
  "activity_trace self [] h = []"
| "activity_trace self (sig # rest) h =
     (case process_signal self sig h of
        Inl e \<Rightarrow> []
      | Inr (output_signals, h1) \<Rightarrow>
          activity_level (variant (comps h1 ! self)) # activity_trace self rest h1)"

section \<open>A small store for examples\<close>

text \<open>One node of each class, the two regions children of the basic node, and the signal
  of the demo scripts.\<close>

definition example_heap :: heap where
  "example_heap =
     \<lparr>comps =
        [\<lparr>name = ''Relay'', parent = None, children = [1, 2], connections = [],
          active = True, variant = BasicNervousSystemComponent\<rparr>,
         \<lparr>name = ''Cerebellum'', parent = Some 0, children = [], connections = [],
          active = True, variant = BrainRegion ''motor_coordination'' 0\<rparr>,
         \<lparr>name = ''PrimaryMotorCortex'', parent = Some 0, children = [], connections = [],
          active = True, variant = CorticalArea ''motor_control'' 0 ''motor'' 6\<rparr>],
      sigs = [\<lparr>signal_type = ''motor_command'', strength = 0.8,
               data = PyStr ''move_right_hand''\<rparr>]\<rparr>"

text \<open>Three fresh basic nodes \<^verbatim>\<open>a\<close>, \<^verbatim>\<open>b\<close>, \<^verbatim>\<open>c\<close> (references 0, 1, 2).\<close>

definition three_nodes :: heap where
  "three_nodes =
     snd (new_BasicNervousSystemComponent ''c'' None
       (snd (new_BasicNervousSystemComponent ''b'' None
         (snd (new_BasicNervousSystemComponent ''a'' None empty_heap)))))"

text \<open>A fresh region and a signal of negative strength.\<close>

definition negative_heap :: heap where
  "negative_heap =
     snd (new_NeuralSignal ''inhibit'' (- 1) PyNone
       (snd (new_BrainRegion ''Cerebellum'' ''motor_coordination'' None empty_heap)))"

text \<open>The example store with connections from the basic node to both regions and from
  the first region to the second.\<close>

definition wired_heap :: heap where
  "wired_heap = add_connection 1 2 (add_connection 0 2 (add_connection 0 1 example_heap))"

text \<open>Two stores have the same links when they hold the same number of components and
  every component has the same connections and the same active flag in both.\<close>

definition same_links :: "heap \<Rightarrow> heap \<Rightarrow> bool" where
  "same_links h h' \<longleftrightarrow>
     length (comps h') = length (comps h) \<and>
     (\<forall>a. connections (comps h' ! a) = connections (comps h ! a)) \<and>
     (\<forall>a. active (comps h' ! a) = active (comps h ! a))"

section \<open>The arithmetic of the methods in binary64\<close>

text \<open>
  A binary64 value is a finite number, an infinity or NaN. The two zeros are one
  value here: the program never divides and never looks at a sign, and \<^verbatim>\<open>-0.0 == 0.0\<close>.
\<close>

datatype float64 = Finite real | PosInf | NegInf | NaN

text \<open>Rounding a real to the nearest integer, a tie going to the even neighbour.\<close>

definition round_half_even :: "real \<Rightarrow> int" where
  "round_half_even q =
     (let f = \<lfloor>q\<rfloor>; d = q - of_int f
      in if d < 1 / 2 then f else if 1 / 2 < d then f + 1 else if even f then f else f + 1)"

text \<open>The binary exponent of a positive number: it is halved or doubled until it lies
  in the interval from 1 (included) to 2 (excluded), at most as often as the first
  argument says.\<close>

fun normalize :: "nat \<Rightarrow> real \<Rightarrow> int \<Rightarrow> int" where
  "normalize 0 x e = e"
| "normalize (Suc n) x e =
     (if 2 \<le> x then normalize n (x / 2) (e + 1)
      else if x < 1 then normalize n (x * 2) (e - 1)
      else e)"

definition pow2 :: "int \<Rightarrow> real" where
  "pow2 k = (if 0 \<le> k then 2 ^ nat k else 1 / 2 ^ nat (- k))"

text \<open>The exponent binary64 uses for a number that is not zero: its binary exponent, and
  -1022 for everything smaller (the subnormal numbers). 2200 steps reach every exponent
  between the smallest subnormal and the overflow threshold; beyond them the result is
  -1022 (too small) or large enough to overflow in any case.\<close>

definition exponent64 :: "real \<Rightarrow> int" where
  "exponent64 x = max (normalize 2200 \<bar>x\<bar> 0) (- 1022)"

text \<open>Rounding a real to binary64, to nearest and ties to even: 53 significant bits,
  that is a whole multiple of two to the power exponent minus 52; what rounds to two
  to the power 1024 or more is an infinity.\<close>

definition round64 :: "real \<Rightarrow> float64" where
  "round64 x =
     (if x = 0 then Finite 0
      else let ulp = pow2 (exponent64 x - 52);
               r = of_int (round_half_even (\<bar>x\<bar> / ulp)) * ulp
           in if pow2 1024 \<le> r then (if 0 < x then PosInf else NegInf)
              else Finite (sgn x * r))"











section \<open>Rounding in binary64\<close>

text \<open>
  The exponent search finds the binary exponent: within its range the number lies
  between two to the power found and twice that.
\<close>

lemma pow2_powi: "pow2 k = 2 powi k"
  by (simp add: pow2_def power_int_def inverse_eq_divide power_one_over)

lemma pow2_add1: "pow2 (k + 1) = 2 * pow2 k"
  by (simp add: pow2_powi power_int_add)

lemma pow2_diff1: "pow2 (k - 1) = pow2 k / 2"
  using pow2_add1 [of "k - 1"] by simp

lemma normalize_binade:
  "0 < x \<Longrightarrow> pow2 (- int n) \<le> x \<Longrightarrow> x < pow2 (int n + 1) \<Longrightarrow>
   pow2 (normalize n x e - e) \<le> x \<and> x < pow2 (normalize n x e - e + 1)"
proof (induction n arbitrary: x e)
  case 0
  then show ?case by (simp add: pow2_def)
next
  case (Suc n)
  have "int (Suc n) + 1 = (int n + 1) + 1" by simp
  then have up: "pow2 (int (Suc n) + 1) = 2 * pow2 (int n + 1)"
    by (simp only: pow2_add1)
  have "- int (Suc n) = - int n - 1" by simp
  then have down: "pow2 (- int (Suc n)) = pow2 (- int n) / 2"
    by (simp only: pow2_diff1)
  show ?case
  proof (cases "2 \<le> x")
    case True
    have "pow2 (- int n) \<le> 1"
      by (simp add: pow2_def)
    with True have 1: "pow2 (- int n) \<le> x / 2" by simp
    from Suc.prems(3) up have 2: "x / 2 < pow2 (int n + 1)" by simp
    from True have 3: "0 < x / 2" by simp
    from Suc.IH [OF 3 1 2, of "e + 1"] True show ?thesis
      using pow2_add1 [of "normalize n (x / 2) (e + 1) - (e + 1)"]
        pow2_add1 [of "normalize n (x / 2) (e + 1) - (e + 1) + 1"]
      by (simp add: algebra_simps)
  next
    case False
    note not2 = False
    show ?thesis
    proof (cases "x < 1")
      case True
      from Suc.prems(2) down have 1: "pow2 (- int n) \<le> x * 2" by simp
      have "2 \<le> pow2 (int n + 1)"
        by (simp add: pow2_def nat_add_distrib)
      with True have 2: "x * 2 < pow2 (int n + 1)" by simp
      from Suc.prems(1) have 3: "0 < x * 2" by simp
      from Suc.IH [OF 3 1 2, of "e - 1"] True not2 show ?thesis
        using pow2_add1 [of "normalize n (x * 2) (e - 1) - e"]
          pow2_add1 [of "normalize n (x * 2) (e - 1) - e + 1"]
        by (simp add: algebra_simps)
    next
      case False
      with not2 show ?thesis by (simp add: pow2_def)
    qed
  qed
qed

text \<open>
  Rounding a given number: the definitions, with the step count as a numeral.
\<close>

lemma normalize_numeral:
  "normalize (numeral n) x e =
     (if 2 \<le> x then normalize (pred_numeral n) (x / 2) (e + 1)
      else if x < 1 then normalize (pred_numeral n) (x * 2) (e - 1)
      else e)"
  by (simp add: numeral_eq_Suc)

lemmas round64_eval =
  round64_def exponent64_def pow2_def round_half_even_def normalize_numeral Let_def

text \<open>
  The literals of the source and of the claims as binary64 values.
\<close>

lemma round64_literals:
  "round64 0 = Finite 0"
  "round64 1 = Finite 1"
  "round64 0.8 = Finite (3602879701896397 / 2 ^ 52)"
  "round64 1.2 = Finite (5404319552844595 / 2 ^ 52)"
  "round64 0.9 = Finite (8106479329266893 / 2 ^ 53)"
  "round64 0.1 = Finite (3602879701896397 / 2 ^ 55)"
  "round64 0.96 = Finite (1080863910568919 / 2 ^ 50)"
  "round64 0.72 = Finite (3242591731706757 / 2 ^ 52)"
  "round64 0.768 = Finite (3458764513820541 / 2 ^ 52)"
  "round64 0.08 = Finite (5764607523034235 / 2 ^ 56)"
  by (simp_all add: round64_eval)








section \<open>What one call of \<^verbatim>\<open>process_signal\<close> does\<close>

text \<open>
  The three methods as equations: the result list, and the store after the call.
\<close>

lemma Basic_process_signal_eq:
  "Basic_process_signal self sig h =
     ([length (sigs h)],
      h\<lparr>sigs := sigs h @ [\<lparr>signal_type = signal_type (sigs h ! sig),
                              strength = strength (sigs h ! sig) * 0.9,
                              data = data (sigs h ! sig)\<rparr>]\<rparr>)"
  by (simp add: Basic_process_signal_def new_NeuralSignal_def Let_def)

lemma BrainRegion_process_signal_eq:
  "BrainRegion_process_signal self sig h =
     ([length (sigs h)],
      h\<lparr>comps := (comps h)[self := (comps h ! self)\<lparr>variant :=
                 set_activity_level
                   (min 1 (activity_level (variant (comps h ! self)) + strength (sigs h ! sig) * 0.1))
                   (variant (comps h ! self))\<rparr>],
        sigs := sigs h @ [\<lparr>signal_type = function' (variant (comps h ! self)) @ ''_processed'',
                              strength = strength (sigs h ! sig) * 0.8,
                              data = PyStr (''Processed by '' @ name (comps h ! self))\<rparr>]\<rparr>)"
  by (simp add: BrainRegion_process_signal_def new_NeuralSignal_def Let_def)

lemma activity_level_set [simp]:
  "v \<noteq> BasicNervousSystemComponent \<Longrightarrow> activity_level (set_activity_level x v) = x"
  by (cases v) simp_all

lemma function_set [simp]: "function' (set_activity_level x v) = function' v"
  by (cases v) simp_all

lemma CorticalArea_process_signal_eq:
  assumes "self < length (comps h)" "sig < length (sigs h)"
    and "variant (comps h ! self) = CorticalArea f a t l"
  shows "CorticalArea_process_signal self sig h =
     (case BrainRegion_process_signal self sig h of
        (outs, h1) \<Rightarrow>
          Inr (outs,
               h1\<lparr>sigs := (sigs h1)[length (sigs h) :=
                      (sigs h1 ! length (sigs h))\<lparr>strength :=
                         strength (sigs h ! sig) * 0.8 *
                         (if t = ''motor'' \<and>
                             signal_type (sigs h ! sig) = ''motor_command'' then 1.2
                          else if t = ''sensory'' then 0.9
                          else 1)\<rparr>]\<rparr>))"
  using assms
  by (simp add: CorticalArea_process_signal_def BrainRegion_process_signal_eq scale_first_def
      nth_append)

lemma process_signal_Basic:
  "variant (comps h ! self) = BasicNervousSystemComponent \<Longrightarrow>
   process_signal self sig h = Inr (Basic_process_signal self sig h)"
  by (simp add: process_signal_def)

lemma process_signal_BrainRegion:
  "variant (comps h ! self) = BrainRegion f a \<Longrightarrow>
   process_signal self sig h = Inr (BrainRegion_process_signal self sig h)"
  by (simp add: process_signal_def)

lemma process_signal_CorticalArea:
  "variant (comps h ! self) = CorticalArea f a t l \<Longrightarrow>
   process_signal self sig h = CorticalArea_process_signal self sig h"
  by (simp add: process_signal_def)

text \<open>
  Claim C1. For a node of class \<^verbatim>\<open>BrainRegion\<close> or \<^verbatim>\<open>CorticalArea\<close> and any input signal,
  the region method (run directly, or as the super call of a cortical area) returns exactly
  one, new, signal whose kind is the node's function followed by \<^verbatim>\<open>_processed\<close>, whose
  strength is the input strength times 0.8 and whose payload is \<^verbatim>\<open>Processed by\<close> followed by
  the node's name, whatever the kind and payload of the input; and the node's activity
  level becomes the minimum of 1.0 and the old level plus a tenth of the input strength.
  The same kind, payload and activity level are what the whole call \<^verbatim>\<open>process_signal\<close>
  leaves, and for a plain region also the strength.
\<close>

theorem C1_region_process_signal:
  assumes "self < length (comps h)" and "sig < length (sigs h)"
    and "variant (comps h ! self) \<noteq> BasicNervousSystemComponent"
  shows "\<exists>h1 h2.
     BrainRegion_process_signal self sig h = ([length (sigs h)], h1) \<and>
     sigs h1 = sigs h @
       [\<lparr>signal_type = function' (variant (comps h ! self)) @ ''_processed'',
         strength = strength (sigs h ! sig) * 0.8,
         data = PyStr (''Processed by '' @ name (comps h ! self))\<rparr>] \<and>
     activity_level (variant (comps h1 ! self)) =
       min 1 (activity_level (variant (comps h ! self)) + strength (sigs h ! sig) * 0.1) \<and>
     process_signal self sig h = Inr ([length (sigs h)], h2) \<and>
     length (sigs h2) = Suc (length (sigs h)) \<and>
     signal_type (sigs h2 ! length (sigs h)) =
       function' (variant (comps h ! self)) @ ''_processed'' \<and>
     data (sigs h2 ! length (sigs h)) = PyStr (''Processed by '' @ name (comps h ! self)) \<and>
     activity_level (variant (comps h2 ! self)) =
       min 1 (activity_level (variant (comps h ! self)) + strength (sigs h ! sig) * 0.1) \<and>
     (case variant (comps h ! self) of
        BrainRegion f a \<Rightarrow> strength (sigs h2 ! length (sigs h)) = strength (sigs h ! sig) * 0.8
      | _ \<Rightarrow> True)"
proof (cases "variant (comps h ! self)")
  case BasicNervousSystemComponent
  with assms(3) show ?thesis by simp
next
  case (BrainRegion f a)
  with assms(1) show ?thesis
    by (simp add: process_signal_BrainRegion BrainRegion_process_signal_eq)
next
  case (CorticalArea f a t l)
  with assms(1,2) show ?thesis
    by (simp add: process_signal_CorticalArea CorticalArea_process_signal_eq
        BrainRegion_process_signal_eq nth_append)
qed

text \<open>
  The region of the specification's example: function \<^verbatim>\<open>motor_coordination\<close>, input strength
  0.8.
\<close>

theorem C1_region_process_signal_witness:
  "\<exists>h2. process_signal 1 0 example_heap = Inr ([1], h2) \<and>
     sigs h2 ! 1 = \<lparr>signal_type = ''motor_coordination_processed'', strength = 0.64,
                     data = PyStr ''Processed by Cerebellum''\<rparr> \<and>
     activity_level (variant (comps h2 ! 1)) = 0.08"
  using C1_region_process_signal [of 1 example_heap 0]
  by (simp add: example_heap_def process_signal_BrainRegion BrainRegion_process_signal_eq)




text \<open>
  Claim C5. For a node of the basic class and any signal, \<^verbatim>\<open>process_signal\<close> returns exactly
  one, new, signal with the kind and the payload of the input and 0.9 times its strength;
  nothing else in the store changes.
\<close>

theorem C5_basic_process_signal:
  assumes "variant (comps h ! self) = BasicNervousSystemComponent"
  shows "process_signal self sig h =
           Inr ([length (sigs h)],
                h\<lparr>sigs := sigs h @ [\<lparr>signal_type = signal_type (sigs h ! sig),
                              strength = strength (sigs h ! sig) * 0.9,
                              data = data (sigs h ! sig)\<rparr>]\<rparr>)"
  using assms by (simp add: process_signal_Basic Basic_process_signal_eq)

text \<open>
  The basic node of the example store and a signal of strength 0.8.
\<close>

theorem C5_basic_process_signal_witness:
  "process_signal 0 0 example_heap =
     Inr ([1], example_heap\<lparr>sigs := sigs example_heap @
            [\<lparr>signal_type = ''motor_command'', strength = 0.72,
              data = PyStr ''move_right_hand''\<rparr>]\<rparr>)"
  using C5_basic_process_signal [of example_heap 0 0] by (simp add: example_heap_def)

text \<open>
  Claim C9. For a node of any class and any input signal, a call of \<^verbatim>\<open>process_signal\<close>
  returns, leaves the input signal (and every other signal that existed before) as it was,
  and leaves the name, the parent, the children, the connections, the active flag, the
  class, the function, the area type and the layers of the receiving node as they were: only
  the activity level may differ. Every other node is unchanged as well.
\<close>

theorem C9_process_signal_frame:
  assumes "self < length (comps h)" and "sig < length (sigs h)"
  shows "\<exists>outs h'. process_signal self sig h = Inr (outs, h') \<and>
     sigs h' ! sig = sigs h ! sig \<and>
     take (length (sigs h)) (sigs h') = sigs h \<and>
     name (comps h' ! self) = name (comps h ! self) \<and>
     parent (comps h' ! self) = parent (comps h ! self) \<and>
     children (comps h' ! self) = children (comps h ! self) \<and>
     connections (comps h' ! self) = connections (comps h ! self) \<and>
     active (comps h' ! self) = active (comps h ! self) \<and>
     (case variant (comps h ! self) of
        BasicNervousSystemComponent \<Rightarrow> variant (comps h' ! self) = BasicNervousSystemComponent
      | BrainRegion f a \<Rightarrow> (\<exists>x. variant (comps h' ! self) = BrainRegion f x)
      | CorticalArea f a t l \<Rightarrow> (\<exists>x. variant (comps h' ! self) = CorticalArea f x t l)) \<and>
     (comps h')[self := comps h ! self] = comps h"
proof (cases "variant (comps h ! self)")
  case BasicNervousSystemComponent
  with assms show ?thesis
    by (simp add: process_signal_Basic Basic_process_signal_eq nth_append)
next
  case (BrainRegion f a)
  with assms show ?thesis
    by (simp add: process_signal_BrainRegion BrainRegion_process_signal_eq nth_append)
next
  case (CorticalArea f a t l)
  with assms show ?thesis
    by (simp add: process_signal_CorticalArea CorticalArea_process_signal_eq
        BrainRegion_process_signal_eq nth_append)
qed

text \<open>
  The cortical area of the example store.
\<close>

theorem C9_process_signal_frame_witness:
  "\<exists>outs h'. process_signal 2 0 example_heap = Inr (outs, h') \<and>
     sigs h' ! 0 = \<lparr>signal_type = ''motor_command'', strength = 0.8,
                     data = PyStr ''move_right_hand''\<rparr> \<and>
     name (comps h' ! 2) = ''PrimaryMotorCortex'' \<and>
     parent (comps h' ! 2) = Some 0 \<and>
     (\<exists>x. variant (comps h' ! 2) = CorticalArea ''motor_control'' x ''motor'' 6)"
  using C9_process_signal_frame [of 2 example_heap 0]
  by (auto simp add: example_heap_def)

section \<open>Sequences of calls on one region\<close>

lemma set_activity_level_not_Basic:
  "v \<noteq> BasicNervousSystemComponent \<Longrightarrow> set_activity_level x v \<noteq> BasicNervousSystemComponent"
  by (cases v) simp_all

text \<open>
  One call on a valid node with a valid signal, for all three classes at once.
\<close>

lemma process_signal_step:
  assumes "self < length (comps h)" and "sig < length (sigs h)"
  shows "\<exists>h'. process_signal self sig h = Inr ([length (sigs h)], h') \<and>
     length (comps h') = length (comps h) \<and>
     length (sigs h') = Suc (length (sigs h)) \<and>
     take (length (sigs h)) (sigs h') = sigs h \<and>
     variant (comps h' ! self) =
       set_activity_level
         (min 1 (activity_level (variant (comps h ! self)) + strength (sigs h ! sig) * 0.1))
         (variant (comps h ! self))"
proof (cases "variant (comps h ! self)")
  case BasicNervousSystemComponent
  with assms show ?thesis
    by (simp add: process_signal_Basic Basic_process_signal_eq)
next
  case (BrainRegion f a)
  with assms show ?thesis
    by (simp add: process_signal_BrainRegion BrainRegion_process_signal_eq)
next
  case (CorticalArea f a t l)
  with assms show ?thesis
    by (simp add: process_signal_CorticalArea CorticalArea_process_signal_eq
        BrainRegion_process_signal_eq)
qed

text \<open>
  Claim C4, as amended. For a node of class \<^verbatim>\<open>BrainRegion\<close> or \<^verbatim>\<open>CorticalArea\<close> whose activity
  level is at most 1.0 (it is 0.0 when the node is created) and any sequence of
  \<^verbatim>\<open>process_signal\<close> calls on it: every call returns, the activity level after every call is
  at most 1.0 whatever the strengths are, and the activity level never decreases from one
  call to the next when the strengths of the input signals are not negative.
\<close>

theorem C4_activity_capped_and_monotone:
  assumes "self < length (comps h)"
    and "variant (comps h ! self) \<noteq> BasicNervousSystemComponent"
    and "activity_level (variant (comps h ! self)) \<le> 1"
    and "\<forall>s \<in> set ss. s < length (sigs h)"
  shows "length (activity_trace self ss h) = length ss \<and>
     (\<forall>x \<in> set (activity_trace self ss h). x \<le> 1) \<and>
     ((\<forall>s \<in> set ss. 0 \<le> strength (sigs h ! s)) \<longrightarrow>
        sorted (activity_level (variant (comps h ! self)) # activity_trace self ss h))"
  using assms
proof (induction ss arbitrary: h)
  case Nil
  then show ?case by simp
next
  case (Cons s ss)
  from Cons.prems have s: "s < length (sigs h)" by simp
  from process_signal_step [OF Cons.prems(1) s]
  obtain h' where call: "process_signal self s h = Inr ([length (sigs h)], h')"
    and len: "length (comps h') = length (comps h)"
    and slen: "length (sigs h') = Suc (length (sigs h))"
    and old: "take (length (sigs h)) (sigs h') = sigs h"
    and var: "variant (comps h' ! self) =
       set_activity_level
         (min 1 (activity_level (variant (comps h ! self)) + strength (sigs h ! s) * 0.1))
         (variant (comps h ! self))"
    by blast
  let ?a = "activity_level (variant (comps h ! self))"
  let ?a' = "activity_level (variant (comps h' ! self))"
  have a': "?a' = min 1 (?a + strength (sigs h ! s) * 0.1)"
    using var Cons.prems(2) by simp
  have same: "sigs h' ! i = sigs h ! i" if "i < length (sigs h)" for i
    using that nth_take [of i "length (sigs h)" "sigs h'"] old by simp
  have 1: "self < length (comps h')" using Cons.prems(1) len by simp
  have 2: "variant (comps h' ! self) \<noteq> BasicNervousSystemComponent"
    using var Cons.prems(2) by (simp add: set_activity_level_not_Basic)
  have 3: "?a' \<le> 1" using a' by simp
  have 4: "\<forall>t \<in> set ss. t < length (sigs h')" using Cons.prems(4) slen by auto
  note IH = Cons.IH [OF 1 2 3 4]
  have trace: "activity_trace self (s # ss) h = ?a' # activity_trace self ss h'"
    using call by simp
  have mono: "sorted (?a # activity_trace self (s # ss) h)"
    if nonneg: "\<forall>t \<in> set (s # ss). 0 \<le> strength (sigs h ! t)"
  proof -
    have "\<forall>t \<in> set ss. 0 \<le> strength (sigs h' ! t)"
      using nonneg Cons.prems(4) same by simp
    with IH have sorted': "sorted (?a' # activity_trace self ss h')" by blast
    have "0 \<le> strength (sigs h ! s)" using nonneg by simp
    with Cons.prems(3) a' have le: "?a \<le> ?a'" by simp
    from sorted' le show ?thesis
      unfolding trace by (auto intro: order_trans)
  qed
  from IH 3 mono show ?case unfolding trace by auto
qed

text \<open>
  Three calls with a signal of strength 0.8 on the region of the example store.
\<close>

theorem C4_activity_capped_and_monotone_witness:
  "activity_trace 1 [0, 0, 0] example_heap = [0.08, 0.16, 0.24]"
  using C4_activity_capped_and_monotone [of 1 example_heap "[0, 0, 0]"]
  by (simp add: example_heap_def process_signal_def BrainRegion_process_signal_eq)

text \<open>
  Claim C4 as stated fails: it speaks of arbitrary input signals, and one call with a
  signal of strength -1 takes the activity level of a fresh region from 0 down to -0.1.
\<close>

theorem C4_counterexample:
  "activity_level (variant (comps negative_heap ! 0)) = 0 \<and>
   activity_trace 0 [0] negative_heap = [- 0.1] \<and>
   \<not> sorted (activity_level (variant (comps negative_heap ! 0)) #
             activity_trace 0 [0] negative_heap)"
  by (simp add: negative_heap_def new_NeuralSignal_def new_BrainRegion_def new_component_def
      empty_heap_def process_signal_BrainRegion BrainRegion_process_signal_eq)

section \<open>Re-parenting\<close>

text \<open>
  Adding the same child to two different nodes, in general: the second call moves the
  parent reference and appends to the second list; the first list keeps its entry.
\<close>

lemma add_child_twice:
  assumes "a < length (comps h)" "b < length (comps h)" "c < length (comps h)"
    and "a \<noteq> b" "a \<noteq> c" "b \<noteq> c"
  shows "parent (comps (add_child b c (add_child a c h)) ! c) = Some b"
    and "children (comps (add_child b c (add_child a c h)) ! b) = children (comps h ! b) @ [c]"
    and "children (comps (add_child b c (add_child a c h)) ! a) = children (comps h ! a) @ [c]"
  using assms by (simp_all add: add_child_def Let_def)

text \<open>
  Claim C7 at three fresh nodes \<^verbatim>\<open>a\<close>, \<^verbatim>\<open>b\<close>, \<^verbatim>\<open>c\<close>: after \<^verbatim>\<open>a.add_child(c)\<close> and then
  \<^verbatim>\<open>b.add_child(c)\<close> the parent of \<^verbatim>\<open>c\<close> is \<^verbatim>\<open>b\<close> and \<^verbatim>\<open>c\<close> is a child of \<^verbatim>\<open>b\<close>, as the claim
  says; but the children of \<^verbatim>\<open>a\<close> still hold \<^verbatim>\<open>c\<close>, which the claim excludes.
\<close>

theorem C7_reparent_keeps_old_child:
  "parent (comps (add_child 1 2 (add_child 0 2 three_nodes)) ! 2) = Some 1 \<and>
   children (comps (add_child 1 2 (add_child 0 2 three_nodes)) ! 1) = [2] \<and>
   children (comps (add_child 1 2 (add_child 0 2 three_nodes)) ! 0) = [2]"
  by (simp add: three_nodes_def new_BasicNervousSystemComponent_def new_component_def
      empty_heap_def add_child_def Let_def)

section \<open>Paths\<close>

text \<open>
  The parent relation of a store is finite, so an acyclic one is well-founded, and
  \<^verbatim>\<open>get_path\<close> returns by induction along it.
\<close>

lemma finite_parent_rel: "finite (parent_rel h)"
proof -
  have "parent_rel h \<subseteq> (\<lambda>a. (the (parent (comps h ! a)), a)) ` {..<length (comps h)}"
    by (auto simp: parent_rel_def image_iff)
  then show ?thesis by (rule finite_subset) simp
qed

lemma closed_heap_parent:
  "closed_heap h \<Longrightarrow> a < length (comps h) \<Longrightarrow> parent (comps h ! a) = Some p \<Longrightarrow>
   p < length (comps h)"
  using nth_mem [of a "comps h"] by (auto simp: closed_heap_def split: option.splits)

lemma get_path_returns:
  assumes "closed_heap h" and "acyclic (parent_rel h)"
  shows "self < length (comps h) \<Longrightarrow> \<exists>s. get_path h self = Some s"
proof -
  have "wf (parent_rel h)"
    using finite_parent_rel assms(2) by (rule finite_acyclic_wf)
  then show "self < length (comps h) \<Longrightarrow> \<exists>s. get_path h self = Some s"
  proof (induction self rule: wf_induct_rule)
    case (less a)
    show ?case
    proof (cases "parent (comps h ! a)")
      case None
      then show ?thesis by (subst get_path.simps) simp
    next
      case (Some p)
      with less.prems have "(p, a) \<in> parent_rel h"
        by (simp add: parent_rel_def)
      moreover have "p < length (comps h)"
        using assms(1) less.prems Some by (rule closed_heap_parent)
      ultimately obtain ps where "get_path h p = Some ps"
        using less.IH by blast
      with Some show ?thesis by (subst get_path.simps) simp
    qed
  qed
qed

text \<open>
  Claim C6. In a store whose parent references are acyclic, \<^verbatim>\<open>get_path\<close> returns for every
  node; the result is the node's own name when the node has no parent, and otherwise the
  parent's path, then \<^verbatim>\<open>/\<close>, then the node's own name. The method assigns nothing: it reads
  the store and its only result is the string.
\<close>

theorem C6_get_path:
  assumes "closed_heap h" and "acyclic (parent_rel h)" and "self < length (comps h)"
  shows "\<exists>s. get_path h self = Some s \<and>
     (case parent (comps h ! self) of
        None \<Rightarrow> s = name (comps h ! self)
      | Some p \<Rightarrow> (\<exists>ps. get_path h p = Some ps \<and> s = ps @ ''/'' @ name (comps h ! self)))"
proof (cases "parent (comps h ! self)")
  case None
  then show ?thesis by (subst get_path.simps) simp
next
  case (Some p)
  have "p < length (comps h)"
    using assms(1,3) Some by (rule closed_heap_parent)
  then obtain ps where "get_path h p = Some ps"
    using get_path_returns [OF assms(1,2)] by blast
  with Some show ?thesis by (subst get_path.simps) simp
qed

lemma acyclic_increasing:
  fixes r :: "(nat \<times> nat) set"
  assumes "\<And>x y. (x, y) \<in> r \<Longrightarrow> x < y"
  shows "acyclic r"
proof -
  have "r \<subseteq> less_than" using assms by auto
  then have "wf r" using wf_less_than by (rule wf_subset [rotated])
  then show ?thesis by (rule wf_acyclic)
qed

lemma closed_example_heap: "closed_heap example_heap"
  by (simp add: closed_heap_def example_heap_def)

lemma acyclic_example_heap: "acyclic (parent_rel example_heap)"
  by (rule acyclic_increasing)
    (auto simp: parent_rel_def example_heap_def less_Suc_eq numeral_3_eq_3)

text \<open>
  The root and a child in the example store.
\<close>

theorem C6_get_path_witness:
  "get_path example_heap 0 = Some ''Relay'' \<and>
   get_path example_heap 1 = Some ''Relay/Cerebellum''"
  using C6_get_path [OF closed_example_heap acyclic_example_heap, of 1]
    C6_get_path [OF closed_example_heap acyclic_example_heap, of 0]
  by (auto simp: example_heap_def)

section \<open>Propagation along the connections\<close>

text \<open>
  No call of \<^verbatim>\<open>process_signal\<close> or \<^verbatim>\<open>send_signal\<close> changes the connections or the active flags,
  and \<^verbatim>\<open>process_signal\<close> never raises.
\<close>

lemma same_links_refl: "same_links h h"
  by (simp add: same_links_def)

lemma same_links_trans: "same_links h h1 \<Longrightarrow> same_links h1 h2 \<Longrightarrow> same_links h h2"
  by (simp add: same_links_def)

lemma nth_update_variant:
  "connections (xs[i := (xs ! i)\<lparr>variant := v\<rparr>] ! a) = connections (xs ! a)"
  "active (xs[i := (xs ! i)\<lparr>variant := v\<rparr>] ! a) = active (xs ! a)"
proof -
  show "connections (xs[i := (xs ! i)\<lparr>variant := v\<rparr>] ! a) = connections (xs ! a)"
    by (cases "i < length xs") (simp_all add: nth_list_update list_update_beyond not_less)
  show "active (xs[i := (xs ! i)\<lparr>variant := v\<rparr>] ! a) = active (xs ! a)"
    by (cases "i < length xs") (simp_all add: nth_list_update list_update_beyond not_less)
qed

lemma same_links_region:
  "same_links h (snd (BrainRegion_process_signal self sig h))"
  by (simp add: BrainRegion_process_signal_eq same_links_def nth_update_variant)

lemma same_links_sigs: "same_links h h1 \<Longrightarrow> same_links h (h1\<lparr>sigs := ss\<rparr>)"
  by (simp add: same_links_def)

lemma CorticalArea_process_signal_total:
  "\<exists>outs h'. CorticalArea_process_signal self sig h = Inr (outs, h') \<and> same_links h h'"
proof -
  obtain h1 where r: "BrainRegion_process_signal self sig h = ([length (sigs h)], h1)"
    by (simp add: BrainRegion_process_signal_eq)
  with same_links_region [of h self sig] have l: "same_links h h1" by simp
  show ?thesis
    unfolding CorticalArea_process_signal_def r scale_first_def
    using l by (simp add: same_links_sigs)
qed

lemma process_signal_total:
  "\<exists>outs h'. process_signal c sig h = Inr (outs, h') \<and> same_links h h'"
proof (cases "variant (comps h ! c)")
  case BasicNervousSystemComponent
  then show ?thesis
    by (simp add: process_signal_def Basic_process_signal_eq same_links_def)
next
  case (BrainRegion f a)
  with same_links_region [of h c sig] show ?thesis
    by (cases "BrainRegion_process_signal c sig h") (simp add: process_signal_def)
next
  case (CorticalArea f a t l)
  with CorticalArea_process_signal_total [of c sig h] show ?thesis
    by (simp add: process_signal_def)
qed

lemma send_preserves_links:
  "send_signal k self sig h = Inr h' \<Longrightarrow> same_links h h'"
  "send_connections k cs sig h = Inr h' \<Longrightarrow> same_links h h'"
  "send_outputs k c outs h = Inr h' \<Longrightarrow> same_links h h'"
proof (induction k self sig h and k cs sig h and k c outs h arbitrary: h' and h' and h'
    rule: send_signal_send_connections_send_outputs.induct)
  case (1 self sig h)
  then show ?case by simp
next
  case (2 k self sig h)
  then show ?case by simp
next
  case (3 k sig h)
  then show ?case by (simp add: same_links_refl)
next
  case (4 k connection rest sig h)
  show ?case
  proof (cases "active (comps h ! connection)")
    case False
    with 4 show ?thesis by simp
  next
    case True
    obtain outs h1 where ps: "process_signal connection sig h = Inr (outs, h1)"
      and l1: "same_links h h1"
      using process_signal_total by blast
    from "4.prems" True ps obtain h2 where so: "send_outputs k connection outs h1 = Inr h2"
      and sc: "send_connections k rest sig h2 = Inr h'"
      by (auto split: sum.splits)
    from "4.IH"(1) [OF True ps refl so] have l2: "same_links h1 h2" .
    from "4.IH"(2) [OF True ps refl so sc] have l3: "same_links h2 h'" .
    from l1 l2 l3 show ?thesis by (blast intro: same_links_trans)
  qed
next
  case (5 k connection h)
  then show ?case by (simp add: same_links_refl)
next
  case (6 k connection output_signal rest h)
  from "6.prems" obtain h1 where ss: "send_signal k connection output_signal h = Inr h1"
    and so: "send_outputs k connection rest h1 = Inr h'"
    by (auto split: sum.splits)
  from "6.IH"(1) [OF ss] "6.IH"(2) [OF ss so] show ?case
    by (blast intro: same_links_trans)
qed


text \<open>
  If every target of a node returns within depth \<open>k\<close>, so do the two loops of the node.
\<close>

lemma send_outputs_returns:
  assumes "\<And>out h. same_links h0 h \<Longrightarrow> \<exists>h'. send_signal k c out h = Inr h'"
  shows "same_links h0 h \<Longrightarrow> \<exists>h'. send_outputs k c outs h = Inr h'"
proof (induction outs arbitrary: h)
  case Nil
  then show ?case by simp
next
  case (Cons out outs)
  from assms [OF Cons.prems] obtain h1 where ss: "send_signal k c out h = Inr h1" by blast
  from send_preserves_links(1) [OF ss] Cons.prems have "same_links h0 h1"
    by (blast intro: same_links_trans)
  from Cons.IH [OF this] ss show ?case by simp
qed

lemma send_connections_returns:
  assumes "\<And>c out h. c \<in> set cs \<Longrightarrow> same_links h0 h \<Longrightarrow> \<exists>h'. send_signal k c out h = Inr h'"
  shows "same_links h0 h \<Longrightarrow> \<exists>h'. send_connections k cs sig h = Inr h'"
  using assms
proof (induction cs arbitrary: h)
  case Nil
  then show ?case by simp
next
  case (Cons c cs)
  have rest: "\<exists>h'. send_connections k cs sig h1 = Inr h'" if "same_links h0 h1" for h1
    using Cons.IH [OF that] Cons.prems(2) by simp
  show ?case
  proof (cases "active (comps h ! c)")
    case False
    with rest [OF Cons.prems(1)] show ?thesis by simp
  next
    case True
    obtain outs h1 where ps: "process_signal c sig h = Inr (outs, h1)"
      and l1: "same_links h h1"
      using process_signal_total by blast
    from Cons.prems(1) l1 have l01: "same_links h0 h1" by (rule same_links_trans)
    have "\<exists>h2. send_outputs k c outs h1 = Inr h2"
      using _ l01
    proof (rule send_outputs_returns)
      fix out h
      assume "same_links h0 h"
      then show "\<exists>h'. send_signal k c out h = Inr h'"
        using Cons.prems(2) by simp
    qed
    then obtain h2 where so: "send_outputs k c outs h1 = Inr h2" by blast
    from send_preserves_links(3) [OF so] l01 have "same_links h0 h2"
      by (blast intro: same_links_trans)
    from rest [OF this] True ps so show ?thesis by simp
  qed
qed

lemma uniform_fuel:
  assumes "\<forall>c \<in> set cs. \<exists>K. \<forall>k \<ge> K. Q c (k::nat)"
  shows "\<exists>K. \<forall>c \<in> set cs. \<forall>k \<ge> K. Q c k"
  using assms
proof (induction cs)
  case Nil
  then show ?case by simp
next
  case (Cons c cs)
  then obtain K1 K2 where 1: "\<forall>k \<ge> K1. Q c k" and 2: "\<forall>c \<in> set cs. \<forall>k \<ge> K2. Q c k"
    by auto
  have "\<forall>c' \<in> set (c # cs). \<forall>k \<ge> max K1 K2. Q c' k"
    using 1 2 by auto
  then show ?case by blast
qed

lemma finite_connection_rel: "finite (connection_rel h)"
proof -
  have "connection_rel h \<subseteq> (\<Union>a \<in> {..<length (comps h)}. (\<lambda>t. (t, a)) ` set (connections (comps h ! a)))"
    by (auto simp: connection_rel_def)
  then show ?thesis by (rule finite_subset) simp
qed

lemma closed_heap_connection:
  "closed_heap h \<Longrightarrow> a < length (comps h) \<Longrightarrow> c \<in> set (connections (comps h ! a)) \<Longrightarrow>
   c < length (comps h)"
  using nth_mem [of a "comps h"] by (auto simp: closed_heap_def)

lemma send_signal_returns:
  assumes "closed_heap h0" and "acyclic (connection_rel h0)"
  shows "self < length (comps h0) \<Longrightarrow>
    \<exists>K. \<forall>k \<ge> K. \<forall>sig h. same_links h0 h \<longrightarrow> (\<exists>h'. send_signal k self sig h = Inr h')"
proof -
  have "wf (connection_rel h0)"
    using finite_connection_rel assms(2) by (rule finite_acyclic_wf)
  then show "self < length (comps h0) \<Longrightarrow>
    \<exists>K. \<forall>k \<ge> K. \<forall>sig h. same_links h0 h \<longrightarrow> (\<exists>h'. send_signal k self sig h = Inr h')"
  proof (induction self rule: wf_induct_rule)
    case (less a)
    let ?cs = "connections (comps h0 ! a)"
    have "\<forall>c \<in> set ?cs. \<exists>K. \<forall>k \<ge> K.
            \<forall>sig h. same_links h0 h \<longrightarrow> (\<exists>h'. send_signal k c sig h = Inr h')"
    proof
      fix c assume c: "c \<in> set ?cs"
      with less.prems have "(c, a) \<in> connection_rel h0"
        by (simp add: connection_rel_def)
      moreover have "c < length (comps h0)"
        using assms(1) less.prems c by (rule closed_heap_connection)
      ultimately show "\<exists>K. \<forall>k \<ge> K.
            \<forall>sig h. same_links h0 h \<longrightarrow> (\<exists>h'. send_signal k c sig h = Inr h')"
        by (rule less.IH)
    qed
    then have "\<exists>K. \<forall>c \<in> set ?cs. \<forall>k \<ge> K.
            \<forall>sig h. same_links h0 h \<longrightarrow> (\<exists>h'. send_signal k c sig h = Inr h')"
      by (rule uniform_fuel)
    then obtain K where K: "\<forall>c \<in> set ?cs. \<forall>k \<ge> K.
            \<forall>sig h. same_links h0 h \<longrightarrow> (\<exists>h'. send_signal k c sig h = Inr h')" ..
    have "\<exists>h'. send_signal k a sig h = Inr h'" if k: "k \<ge> Suc K" and l: "same_links h0 h"
      for k sig h
    proof -
      from k obtain k' where k': "k = Suc k'" "k' \<ge> K" by (cases k) auto
      have cs: "connections (comps h ! a) = ?cs" using l by (simp add: same_links_def)
      have "\<exists>h'. send_connections k' ?cs sig h = Inr h'"
        using _ l
      proof (rule send_connections_returns)
        fix c out h1
        assume "c \<in> set ?cs" "same_links h0 h1"
        with K k'(2) show "\<exists>h'. send_signal k' c out h1 = Inr h'" by blast
      qed
      with k'(1) cs show ?thesis by simp
    qed
    then show ?case by blast
  qed
qed

lemma send_connections_filter:
  "send_connections k cs sig h =
   send_connections k (filter (\<lambda>c. active (comps h ! c)) cs) sig h"
proof (induction cs arbitrary: h)
  case Nil
  then show ?case by simp
next
  case (Cons c cs)
  show ?case
  proof (cases "active (comps h ! c)")
    case False
    with Cons.IH show ?thesis by simp
  next
    case True
    have "send_connections k cs sig h2 =
          send_connections k (filter (\<lambda>c. active (comps h ! c)) cs) sig h2"
      if "process_signal c sig h = Inr (outs, h1)" "send_outputs k c outs h1 = Inr h2"
      for outs h1 h2
    proof -
      from process_signal_total [of c sig h] that(1) have "same_links h h1" by simp
      with send_preserves_links(3) [OF that(2)] have "same_links h h2"
        by (blast intro: same_links_trans)
      then have "(\<lambda>c. active (comps h2 ! c)) = (\<lambda>c. active (comps h ! c))"
        by (simp add: same_links_def)
      with Cons.IH [of h2] show ?thesis by simp
    qed
    with True show ?thesis by (simp split: sum.splits)
  qed
qed

text \<open>
  Claim C8. \<^verbatim>\<open>send_signal\<close> treats exactly the connections whose target is active: the
  loop over all connections is the loop over the active ones; on an active target it
  calls \<^verbatim>\<open>process_signal\<close>, then sends every output signal on from that target, then goes on
  with the remaining connections. When the connection relation of the store is acyclic,
  the recursion ends for every input signal: from some recursion depth on, the call
  returns a store.
\<close>

theorem C8_send_signal:
  assumes "closed_heap h" and "acyclic (connection_rel h)" and "self < length (comps h)"
  shows "(\<exists>K. \<forall>k \<ge> K. \<exists>h'. send_signal k self sig h = Inr h') \<and>
     (\<forall>k. send_signal (Suc k) self sig h =
           send_connections k
             (filter (\<lambda>c. active (comps h ! c)) (connections (comps h ! self))) sig h) \<and>
     (\<forall>k c rest. active (comps h ! c) \<longrightarrow>
        send_connections k (c # rest) sig h =
          (case process_signal c sig h of
             Inl e \<Rightarrow> Inl e
           | Inr (outs, h1) \<Rightarrow>
               (case send_outputs k c outs h1 of
                  Inl e \<Rightarrow> Inl e
                | Inr h2 \<Rightarrow> send_connections k rest sig h2))) \<and>
     (\<forall>k c outs. send_outputs k c outs h =
        (case outs of
           [] \<Rightarrow> Inr h
         | out # rest \<Rightarrow>
             (case send_signal k c out h of
                Inl e \<Rightarrow> Inl e
              | Inr h1 \<Rightarrow> send_outputs k c rest h1)))"
proof (intro conjI allI impI)
  from send_signal_returns [OF assms] obtain K where
    "\<forall>k \<ge> K. \<forall>sig h'. same_links h h' \<longrightarrow> (\<exists>h''. send_signal k self sig h' = Inr h'')"
    by blast
  then have "\<forall>k \<ge> K. \<exists>h'. send_signal k self sig h = Inr h'"
    using same_links_refl by blast
  then show "\<exists>K. \<forall>k \<ge> K. \<exists>h'. send_signal k self sig h = Inr h'" ..
next
  fix k
  show "send_signal (Suc k) self sig h =
        send_connections k
          (filter (\<lambda>c. active (comps h ! c)) (connections (comps h ! self))) sig h"
    using send_connections_filter [of k "connections (comps h ! self)" sig h] by simp
next
  fix k c rest
  assume "active (comps h ! c)"
  then show "send_connections k (c # rest) sig h =
          (case process_signal c sig h of
             Inl e \<Rightarrow> Inl e
           | Inr (outs, h1) \<Rightarrow>
               (case send_outputs k c outs h1 of
                  Inl e \<Rightarrow> Inl e
                | Inr h2 \<Rightarrow> send_connections k rest sig h2))"
    by simp
next
  fix k c outs
  show "send_outputs k c outs h =
        (case outs of
           [] \<Rightarrow> Inr h
         | out # rest \<Rightarrow>
             (case send_signal k c out h of
                Inl e \<Rightarrow> Inl e
              | Inr h1 \<Rightarrow> send_outputs k c rest h1))"
    by (cases outs) simp_all
qed


lemma acyclic_decreasing:
  fixes r :: "(nat \<times> nat) set"
  assumes "\<And>x y. (x, y) \<in> r \<Longrightarrow> y < x"
  shows "acyclic r"
proof -
  have "r\<inverse> \<subseteq> less_than" using assms by auto
  then have "wf (r\<inverse>)" using wf_less_than by (rule wf_subset [rotated])
  then have "acyclic (r\<inverse>)" by (rule wf_acyclic)
  then show ?thesis by simp
qed

lemma closed_wired_heap: "closed_heap wired_heap"
  by (simp add: closed_heap_def wired_heap_def example_heap_def add_connection_def)

lemma acyclic_wired_heap: "acyclic (connection_rel wired_heap)"
  by (rule acyclic_decreasing)
    (auto simp: connection_rel_def wired_heap_def example_heap_def add_connection_def
      less_Suc_eq numeral_3_eq_3)

text \<open>
  The wired example store: three levels of recursion are enough, both regions are reached,
  the second one twice.
\<close>

theorem C8_send_signal_witness:
  "(\<exists>K. \<forall>k \<ge> K. \<exists>h'. send_signal k 0 0 wired_heap = Inr h') \<and>
   (\<exists>h'. send_signal 3 0 0 wired_heap = Inr h' \<and>
      length (sigs h') = 4 \<and>
      activity_level (variant (comps h' ! 1)) = 0.08 \<and>
      activity_level (variant (comps h' ! 2)) = 0.144)"
proof
  show "\<exists>K. \<forall>k \<ge> K. \<exists>h'. send_signal k 0 0 wired_heap = Inr h'"
    using C8_send_signal [OF closed_wired_heap acyclic_wired_heap, of 0 0]
    by (simp add: wired_heap_def example_heap_def add_connection_def)
  show "\<exists>h'. send_signal 3 0 0 wired_heap = Inr h' \<and>
      length (sigs h') = 4 \<and>
      activity_level (variant (comps h' ! 1)) = 0.08 \<and>
      activity_level (variant (comps h' ! 2)) = 0.144"
    by (simp add: wired_heap_def example_heap_def add_connection_def numeral_3_eq_3
        process_signal_def BrainRegion_process_signal_eq CorticalArea_process_signal_def
        scale_first_def)
qed

text \<open>
  Without acyclicity there is no such depth: a node that is active and connected to itself
  runs into the bound at every depth.
\<close>

lemma send_signal_self_loop:
  assumes "connections (comps h ! a) = [a]" and "active (comps h ! a)"
  shows "send_signal k a sig h = Inl RecursionError"
  using assms
proof (induction k arbitrary: sig h)
  case 0
  then show ?case by simp
next
  case (Suc k)
  obtain outs h1 where ps: "process_signal a sig h = Inr (outs, h1)" and l: "same_links h h1"
    using process_signal_total by blast
  from l Suc.prems have 1: "connections (comps h1 ! a) = [a]" and 2: "active (comps h1 ! a)"
    by (simp_all add: same_links_def)
  have "send_outputs k a outs h1 = Inl RecursionError \<or> send_outputs k a outs h1 = Inr h1 \<and> outs = []"
  proof (cases outs)
    case Nil
    then show ?thesis by simp
  next
    case (Cons out rest)
    with Suc.IH [OF 1 2] show ?thesis by simp
  qed
  moreover have "outs \<noteq> []"
    using ps by (auto simp: process_signal_def Basic_process_signal_eq
        BrainRegion_process_signal_eq CorticalArea_process_signal_def scale_first_def
        split: variant.splits if_splits)
  ultimately show ?case using Suc.prems ps by simp
qed

section \<open>What the builder builds\<close>

text \<open>
  The four steps of the builder on a store written out as a record.
\<close>

lemma run_basic:
  "run_state (basic nm) \<lparr>comps = xs, sigs = ss\<rparr> =
     (length xs,
      \<lparr>comps = xs @ [\<lparr>name = nm, parent = None, children = [], connections = [],
                        active = True, variant = BasicNervousSystemComponent\<rparr>],
       sigs = ss\<rparr>)"
  by (simp add: basic_def new_BasicNervousSystemComponent_def new_component_def)

lemma run_region:
  "run_state (region nm f p) \<lparr>comps = xs, sigs = ss\<rparr> =
     (length xs,
      \<lparr>comps = xs @ [\<lparr>name = nm, parent = p, children = [], connections = [],
                        active = True, variant = BrainRegion f 0\<rparr>],
       sigs = ss\<rparr>)"
  by (simp add: region_def new_BrainRegion_def new_component_def)

lemma run_cortical:
  "run_state (cortical nm f t p) \<lparr>comps = xs, sigs = ss\<rparr> =
     (length xs,
      \<lparr>comps = xs @ [\<lparr>name = nm, parent = p, children = [], connections = [],
                        active = True, variant = CorticalArea f 0 t 6\<rparr>],
       sigs = ss\<rparr>)"
  by (simp add: cortical_def new_CorticalArea_def new_component_def)

lemma run_child:
  "run_state (child s c) \<lparr>comps = xs, sigs = ss\<rparr> =
     ((), \<lparr>comps =
             (let ys = xs[c := (xs ! c)\<lparr>parent := Some s\<rparr>]
              in ys[s := (ys ! s)\<lparr>children := children (ys ! s) @ [c]\<rparr>]),
           sigs = ss\<rparr>)"
  by (simp add: child_def add_child_def Let_def)

lemmas runs = run_basic run_region run_cortical run_child

text \<open>
  Each part of the builder appends its block of nodes to the store it starts from and
  returns the reference of the block's root.
\<close>

lemma run_build_cerebrum:
  "run_state build_cerebrum \<lparr>comps = xs, sigs = ss\<rparr> =
     (length xs, \<lparr>comps = xs @ cerebrum_nodes (length xs) None, sigs = ss\<rparr>)"
  by (simp add: build_cerebrum_def cerebrum_nodes_def runs list_update_append nth_append)

lemma run_build_brainstem:
  "run_state build_brainstem \<lparr>comps = xs, sigs = ss\<rparr> =
     (length xs, \<lparr>comps = xs @ brainstem_nodes (length xs) None, sigs = ss\<rparr>)"
  by (simp add: build_brainstem_def brainstem_nodes_def runs list_update_append nth_append)

lemma run_build_diencephalon:
  "run_state build_diencephalon \<lparr>comps = xs, sigs = ss\<rparr> =
     (length xs, \<lparr>comps = xs @ diencephalon_nodes (length xs) None, sigs = ss\<rparr>)"
  by (simp add: build_diencephalon_def diencephalon_nodes_def runs list_update_append nth_append)

lemma run_build_limbic_system:
  "run_state build_limbic_system \<lparr>comps = xs, sigs = ss\<rparr> =
     (length xs, \<lparr>comps = xs @ limbic_system_nodes (length xs) None, sigs = ss\<rparr>)"
  by (simp add: build_limbic_system_def limbic_system_nodes_def runs list_update_append nth_append)

lemma run_build_spinal_cord:
  "run_state build_spinal_cord \<lparr>comps = xs, sigs = ss\<rparr> =
     (length xs, \<lparr>comps = xs @ spinal_cord_nodes (length xs) None, sigs = ss\<rparr>)"
  by (simp add: build_spinal_cord_def spinal_cord_nodes_def runs list_update_append nth_append)

lemma run_build_somatic_system:
  "run_state build_somatic_system \<lparr>comps = xs, sigs = ss\<rparr> =
     (length xs, \<lparr>comps = xs @ somatic_system_nodes (length xs) None, sigs = ss\<rparr>)"
  by (simp add: build_somatic_system_def somatic_system_nodes_def runs list_update_append nth_append)

lemma run_build_autonomic_system:
  "run_state build_autonomic_system \<lparr>comps = xs, sigs = ss\<rparr> =
     (length xs, \<lparr>comps = xs @ autonomic_system_nodes (length xs) None, sigs = ss\<rparr>)"
  by (simp add: build_autonomic_system_def autonomic_system_nodes_def runs list_update_append nth_append)

lemmas run_builds =
  run_build_cerebrum run_build_brainstem run_build_diencephalon run_build_limbic_system
  run_build_spinal_cord run_build_somatic_system run_build_autonomic_system

lemmas nodes_defs =
  cerebrum_nodes_def brainstem_nodes_def diencephalon_nodes_def limbic_system_nodes_def
  spinal_cord_nodes_def somatic_system_nodes_def autonomic_system_nodes_def

lemma run_build_brain:
  "run_state build_brain \<lparr>comps = xs, sigs = ss\<rparr> =
     (length xs, \<lparr>comps = xs @ brain_nodes (length xs) None, sigs = ss\<rparr>)"
  by (simp add: build_brain_def brain_nodes_def nodes_defs runs run_builds list_update_append
      nth_append)

lemma run_build_complete_system:
  "run_state build_complete_system empty_heap = (0, \<lparr>comps = system_nodes, sigs = []\<rparr>)"
  by (simp add: build_complete_system_def empty_heap_def system_nodes_def brain_nodes_def
      nodes_defs runs run_builds run_build_brain list_update_append nth_append)

text \<open>
  \<^verbatim>\<open>find_component\<close> with the depth bound given as a numeral, and the fact that a result
  found within some depth is found within every larger depth.
\<close>

lemma find_component_numeral:
  "find_component (numeral n) h a nm =
     (if name (comps h ! a) = nm then Inr (Some a)
      else find_in_children (pred_numeral n) h (children (comps h ! a)) nm)"
  by (simp add: numeral_eq_Suc)

lemma find_fuel_mono:
  "find_component k h a nm = Inr r \<Longrightarrow> find_component (k + j) h a nm = Inr r"
  "find_in_children k h cs nm = Inr r \<Longrightarrow> find_in_children (k + j) h cs nm = Inr r"
proof (induction k h a nm and k h cs nm arbitrary: r and r
    rule: find_component_find_in_children.induct)
  case (1 h start nm)
  then show ?case by simp
next
  case (2 k h start nm)
  then show ?case by (simp split: if_splits)
next
  case (3 k h nm)
  then show ?case by simp
next
  case (4 k h child rest nm)
  show ?case
  proof (cases "find_component k h child nm")
    case (Inl e)
    with "4.prems" show ?thesis by simp
  next
    case (Inr found)
    note first = "4.IH"(1) [OF Inr]
    show ?thesis
    proof (cases found)
      case None
      from "4.prems" Inr None have "find_in_children k h rest nm = Inr r" by simp
      from "4.IH"(2) [OF Inr None this] first None show ?thesis by simp
    next
      case (Some x)
      with "4.prems" Inr first show ?thesis by auto
    qed
  qed
qed


lemma find_Hippocampus:
  "find_component 10 \<lparr>comps = system_nodes, sigs = []\<rparr> 0 ''Hippocampus'' = Inr (Some 15)"
  by (simp add: find_component_numeral system_nodes_def brain_nodes_def nodes_defs)



lemma system_nodes_Hippocampus:
  "name (system_nodes ! 15) = ''Hippocampus''" "parent (system_nodes ! 15) = Some 12"
  "name (system_nodes ! 12) = ''TemporalLobe''" "children (system_nodes ! 12) = [13, 14, 15]"
  "name (system_nodes ! 44) = ''Hippocampus''" "parent (system_nodes ! 44) = Some 43"
  "name (system_nodes ! 43) = ''LimbicSystem''" "children (system_nodes ! 43) = [44, 48]"
  by (simp_all add: system_nodes_def brain_nodes_def nodes_defs)

text \<open>
  Claim C10. The store that \<^verbatim>\<open>build_complete_system\<close> returns holds two different nodes named
  \<^verbatim>\<open>Hippocampus\<close>: node 15, a child of the node named \<^verbatim>\<open>TemporalLobe\<close>, and node 44, a child of
  the node named \<^verbatim>\<open>LimbicSystem\<close>. \<^verbatim>\<open>find_component\<close> from the root returns node 15 at every
  recursion depth from 10 on, and node 44 at no depth.
\<close>

theorem C10_two_nodes_named_Hippocampus:
  "\<exists>h. run_state build_complete_system empty_heap = (0, h) \<and>
     name (comps h ! 15) = ''Hippocampus'' \<and>
     parent (comps h ! 15) = Some 12 \<and>
     name (comps h ! 12) = ''TemporalLobe'' \<and>
     15 \<in> set (children (comps h ! 12)) \<and>
     name (comps h ! 44) = ''Hippocampus'' \<and>
     parent (comps h ! 44) = Some 43 \<and>
     name (comps h ! 43) = ''LimbicSystem'' \<and>
     44 \<in> set (children (comps h ! 43)) \<and>
     (\<forall>k. find_component (10 + k) h 0 ''Hippocampus'' = Inr (Some 15)) \<and>
     (\<forall>k. find_component k h 0 ''Hippocampus'' \<noteq> Inr (Some 44))"
proof -
  let ?h = "\<lparr>comps = system_nodes, sigs = []\<rparr>"
  have found: "find_component (10 + k) ?h 0 ''Hippocampus'' = Inr (Some 15)" for k
    using find_Hippocampus by (rule find_fuel_mono(1))
  have "find_component k ?h 0 ''Hippocampus'' \<noteq> Inr (Some 44)" for k
  proof
    assume "find_component k ?h 0 ''Hippocampus'' = Inr (Some 44)"
    then have "find_component (k + 10) ?h 0 ''Hippocampus'' = Inr (Some 44)"
      by (rule find_fuel_mono(1))
    with found [of k] show False by (simp add: add.commute)
  qed
  with found show ?thesis
    by (intro exI [of _ ?h]) (simp add: run_build_complete_system system_nodes_Hippocampus)
qed



end
